theory Spec2Isabelle
  imports Complex_Main
begin

section \<open>JavaScript values as the engine sees them\<close>

text \<open>
  The engine (src/index.js) handles values that come out of \<open>JSON.parse\<close>, out of the
  script configuration, and out of property reads on them. A value is one of the JSON
  forms, or \<open>undefined\<close> (a missing property), or \<open>NaN\<close> (the result of arithmetic on a
  non-number). Objects keep their properties as an association list, read with
  \<open>map_of\<close>. A finite number is held as the exact rational value of the double.
  Division rounds its result to the nearest double, as the language does. Subtraction
  and the multiplication by 1000 are exact: the engine applies them to integers
  (timestamps in milliseconds, timeouts in seconds), where the exact result is the
  double. Infinities are outside the model. Strings are lists of 8-bit characters.
\<close>

datatype jsval =
    JUndefined
  | JNull
  | JBool bool
  | JNum rat
  | JNaN
  | JStr string
  | JArr "jsval list"
  | JObj "(string \<times> jsval) list"

datatype error = TypeError | SyntaxError | HostError string

text \<open>
  Two conversions of the language are left to the host, as parameters of the model:
  printing a number that is not an integer below \<open>10^21\<close> in magnitude, and reading a
  string as a number (\<open>StringToNumber\<close>). The engine reaches them only on inputs of the
  wrong type (a string where a timestamp is expected, a fractional metric name).
\<close>

record host =
  frac_to_string :: "rat \<Rightarrow> string"
  string_to_number :: "string \<Rightarrow> jsval"

text \<open>\<open>ToBoolean\<close>: what \<open>if (v)\<close>, \<open>v || w\<close> and \<open>v ? a : b\<close> test.\<close>

fun truthy :: "jsval \<Rightarrow> bool" where
  "truthy JUndefined = False"
| "truthy JNull = False"
| "truthy (JBool b) = b"
| "truthy (JNum r) = (r \<noteq> 0)"
| "truthy JNaN = False"
| "truthy (JStr s) = (s \<noteq> [])"
| "truthy (JArr xs) = True"
| "truthy (JObj fs) = True"

subsection \<open>Rounding to a double\<close>

text \<open>
  IEEE 754 binary64, round to nearest, ties to even. A positive \<open>x\<close> with
  \<open>2^k \<le> x < 2^(k+1)\<close> is rounded to a multiple of \<open>2^(k-52)\<close>, so that 53 bits
  are kept; below \<open>2^(-1022)\<close> the spacing stays \<open>2^(-1074)\<close> (subnormal numbers, and
  zero below half of that). \<open>bits n\<close> is the length of \<open>n\<close> in binary.
\<close>

fun bits :: "nat \<Rightarrow> nat" where
  "bits n = (if n = 0 then 0 else Suc (bits (n div 2)))"

declare bits.simps [simp del]

definition pow2 :: "int \<Rightarrow> rat" where
  "pow2 e = (if 0 \<le> e then 2 ^ nat e else 1 / 2 ^ nat (- e))"

text \<open>The \<open>k\<close> with \<open>2^k \<le> x < 2^(k+1)\<close>, for \<open>x > 0\<close>.\<close>

definition exponent_of :: "rat \<Rightarrow> int" where
  "exponent_of x =
     (if 1 \<le> x then int (bits (nat \<lfloor>x\<rfloor>)) - 1
      else (let j = int (bits (nat \<lfloor>1 / x\<rfloor>)) - 1
            in if 1 / x = pow2 j then - j else - j - 1))"

definition round_even :: "rat \<Rightarrow> int" where
  "round_even q =
     (let f = \<lfloor>q\<rfloor>; r = q - of_int f
      in if r < 1 / 2 then f
         else if 1 / 2 < r then f + 1
         else if even f then f else f + 1)"

definition round_double :: "rat \<Rightarrow> rat" where
  "round_double x =
     (if x = 0 then 0
      else (let e = max (exponent_of \<bar>x\<bar> - 52) (- 1074)
            in sgn x * of_int (round_even (\<bar>x\<bar> / pow2 e)) * pow2 e))"

subsection \<open>Numbers to strings\<close>

definition digit_char :: "nat \<Rightarrow> char" where
  "digit_char d = ''0123456789'' ! d"

fun digits_of :: "nat \<Rightarrow> string" where
  "digits_of n = (if n < 10 then [digit_char n] else digits_of (n div 10) @ [digit_char (n mod 10)])"

declare digits_of.simps [simp del]

definition show_int :: "int \<Rightarrow> string" where
  "show_int i = (if i < 0 then CHR ''-'' # digits_of (nat (- i)) else digits_of (nat i))"

text \<open>\<open>Number::toString\<close>: an integer below \<open>10^21\<close> in magnitude prints in decimal.\<close>

definition number_to_string :: "host \<Rightarrow> rat \<Rightarrow> string" where
  "number_to_string h r =
     (if r = of_int \<lfloor>r\<rfloor> \<and> \<bar>r\<bar> < 10 ^ 21 then show_int \<lfloor>r\<rfloor> else frac_to_string h r)"

subsection \<open>\<open>ToString\<close> and \<open>ToNumber\<close>\<close>

text \<open>
  A value parsed from JSON holds no function. So \<open>ToPrimitive\<close> on a plain object ends
  in \<open>Object.prototype.toString\<close>, which gives \<open>[object Object]\<close>, unless the object has
  an own property \<open>toString\<close>: that one is not callable, and a \<open>TypeError\<close> is thrown.
  An array prints through \<open>join\<close>: the elements separated by commas, \<open>null\<close> and
  \<open>undefined\<close> as the empty string.
\<close>

fun to_string :: "host \<Rightarrow> jsval \<Rightarrow> error + string"
  and join_elements :: "host \<Rightarrow> jsval list \<Rightarrow> error + string" where
  "to_string h JUndefined = Inr ''undefined''"
| "to_string h JNull = Inr ''null''"
| "to_string h (JBool b) = Inr (if b then ''true'' else ''false'')"
| "to_string h (JNum r) = Inr (number_to_string h r)"
| "to_string h JNaN = Inr ''NaN''"
| "to_string h (JStr s) = Inr s"
| "to_string h (JArr xs) = join_elements h xs"
| "to_string h (JObj fs) =
     (if map_of fs ''toString'' \<noteq> None then Inl TypeError else Inr ''[object Object]'')"
| "join_elements h [] = Inr []"
| "join_elements h (x # xs) =
     (case (if x = JUndefined \<or> x = JNull then Inr [] else to_string h x) of
        Inl e \<Rightarrow> Inl e
      | Inr s \<Rightarrow>
          (if xs = [] then Inr s
           else (case join_elements h xs of
                   Inl e \<Rightarrow> Inl e
                 | Inr t \<Rightarrow> Inr (s @ '','' @ t))))"

fun to_number :: "host \<Rightarrow> jsval \<Rightarrow> error + jsval" where
  "to_number h JUndefined = Inr JNaN"
| "to_number h JNull = Inr (JNum 0)"
| "to_number h (JBool b) = Inr (JNum (if b then 1 else 0))"
| "to_number h (JNum r) = Inr (JNum r)"
| "to_number h JNaN = Inr JNaN"
| "to_number h (JStr s) = Inr (string_to_number h s)"
| "to_number h v =
     (case to_string h v of Inl e \<Rightarrow> Inl e | Inr s \<Rightarrow> Inr (string_to_number h s))"

text \<open>\<open>a - b\<close>: both operands through \<open>ToNumber\<close>, left first.\<close>

definition js_sub :: "host \<Rightarrow> jsval \<Rightarrow> jsval \<Rightarrow> error + jsval" where
  "js_sub h a b =
     (case to_number h a of
        Inl e \<Rightarrow> Inl e
      | Inr x \<Rightarrow>
          (case to_number h b of
             Inl e \<Rightarrow> Inl e
           | Inr y \<Rightarrow>
               (case (x, y) of
                  (JNum p, JNum q) \<Rightarrow> Inr (JNum (p - q))
                | _ \<Rightarrow> Inr JNaN)))"

text \<open>
  Division by a numeric literal of magnitude at least 1, as in
  \<open>usedJSHeapSize / 1000\<close>: the quotient of a double by such a literal cannot
  overflow, and it is rounded to the nearest double.
\<close>

definition js_div_lit :: "host \<Rightarrow> jsval \<Rightarrow> rat \<Rightarrow> error + jsval" where
  "js_div_lit h a d =
     (case to_number h a of
        Inl e \<Rightarrow> Inl e
      | Inr (JNum p) \<Rightarrow> Inr (JNum (round_double (p / d)))
      | Inr _ \<Rightarrow> Inr JNaN)"

text \<open>
  \<open>s + v\<close> with a string on the left: concatenation with \<open>ToString v\<close>. Template
  literals \<open>`...${v}`\<close> convert the same way.
\<close>

definition str_concat :: "host \<Rightarrow> string \<Rightarrow> jsval \<Rightarrow> error + string" where
  "str_concat h s v = (case to_string h v of Inl e \<Rightarrow> Inl e | Inr t \<Rightarrow> Inr (s @ t))"

subsection \<open>Property reads\<close>

text \<open>
  \<open>v.p\<close> for the property names the engine reads (\<open>connectStart\<close>, \<open>domInteractive\<close>,
  \<open>navigationStart\<close>, \<open>name\<close>, \<open>value\<close>, \<open>url\<close>, \<open>usedJSHeapSize\<close>): none of them is
  defined on a prototype of strings, numbers, booleans, arrays or plain objects, so
  only an object's own property answers. Reading a property of \<open>null\<close> or \<open>undefined\<close>
  throws; so does destructuring them.
\<close>

fun get_prop :: "jsval \<Rightarrow> string \<Rightarrow> error + jsval" where
  "get_prop JUndefined p = Inl TypeError"
| "get_prop JNull p = Inl TypeError"
| "get_prop (JObj fs) p = (case map_of fs p of None \<Rightarrow> Inr JUndefined | Some v \<Rightarrow> Inr v)"
| "get_prop v p = Inr JUndefined"

section \<open>The engine: constructor\<close>







record engine =
  target :: string
  defaultNavigationTimeout :: jsval
  defaultTimeout :: jsval
  aggregateByName :: jsval
  extendedMetrics :: bool
  showAllPageMetrics :: bool




section \<open>The scenario: naming policy and page event handlers\<close>

text \<open>The scenario specification; \<open>spec_name\<close> is \<open>spec.name\<close>, \<open>None\<close> when not declared.\<close>

record scenario_spec =
  spec_name :: "string option"

text \<open>\<open>aggregateByNameInScenario && spec.name ? spec.name : url\<close>\<close>

definition getName :: "engine \<Rightarrow> scenario_spec \<Rightarrow> string \<Rightarrow> string" where
  "getName eng spec url =
     (case spec_name spec of
        None \<Rightarrow> url
      | Some n \<Rightarrow> if truthy (aggregateByName eng) \<and> truthy (JStr n) then n else url)"

datatype emission = Counter string int | Histogram string jsval

datatype log = DomContentLoadedError error | ConsoleError error | LoadError error

text \<open>How a handler ends: it returns, or an exception leaves it.\<close>

datatype 'a completion = Normal 'a | Raised error

text \<open>
  What the handler gets from the page: \<open>page.evaluate\<close> rejects, or it gives a text that
  \<open>JSON.parse\<close> refuses, or a text that parses to a value.
\<close>

datatype parse_result = NotJson | Parsed jsval

datatype evaluated = EvalThrows error | Evaluated parse_result

subsection \<open>The dedup ledger\<close>

text \<open>
  \<open>uniquePageLoadToTiming\<close> is a plain object: a read of a key it does not own falls
  through to \<open>Object.prototype\<close>, whose properties are all truthy.
\<close>

type_synonym ledger = "string \<rightharpoonup> jsval"

definition object_prototype_keys :: "string list" where
  "object_prototype_keys =
     [''constructor'', ''__defineGetter__'', ''__defineSetter__'', ''hasOwnProperty'',
      ''__lookupGetter__'', ''__lookupSetter__'', ''isPrototypeOf'',
      ''propertyIsEnumerable'', ''toString'', ''valueOf'', ''__proto__'',
      ''toLocaleString'']"

text \<open>The test \<open>if (uniquePageLoadToTiming[timingName])\<close>.\<close>

definition ledger_has :: "ledger \<Rightarrow> string \<Rightarrow> bool" where
  "ledger_has L k =
     (case L k of Some v \<Rightarrow> truthy v | None \<Rightarrow> k \<in> set object_prototype_keys)"

subsection \<open>\<open>domcontentloaded\<close>\<close>

text \<open>\<open>getName(pageParameter.url()) + performanceTiming.connectStart\<close>\<close>

definition timing_name :: "host \<Rightarrow> engine \<Rightarrow> scenario_spec \<Rightarrow> string \<Rightarrow> jsval \<Rightarrow> error + string" where
  "timing_name h eng spec url performanceTiming =
     (case get_prop performanceTiming ''connectStart'' of
        Inl e \<Rightarrow> Inl e
      | Inr cs \<Rightarrow> str_concat h (getName eng spec url) cs)"

text \<open>\<open>performanceTiming.domInteractive - performanceTiming.navigationStart\<close>\<close>

definition start_to_interactive :: "host \<Rightarrow> jsval \<Rightarrow> error + jsval" where
  "start_to_interactive h performanceTiming =
     (case get_prop performanceTiming ''domInteractive'' of
        Inl e \<Rightarrow> Inl e
      | Inr di \<Rightarrow>
          (case get_prop performanceTiming ''navigationStart'' of
             Inl e \<Rightarrow> Inl e
           | Inr ns \<Rightarrow> js_sub h di ns))"

definition dcl_emissions :: "string \<Rightarrow> jsval \<Rightarrow> emission list" where
  "dcl_emissions nm startToInteractive =
     [Counter ''browser.page.domcontentloaded'' 1,
      Counter (''browser.page.domcontentloaded.'' @ nm) 1,
      Histogram ''browser.page.dominteractive'' startToInteractive,
      Histogram (''browser.page.dominteractive.'' @ nm) startToInteractive]"

text \<open>
  One firing of the handler, from the ledger before it to the ledger after it, with
  what it emitted and what it logged. The page's URL and the result of the evaluation
  are the inputs. Whatever is thrown inside the \<open>try\<close> is logged by the \<open>catch\<close>; the
  ledger keeps an insertion made before the throw.
\<close>

definition domcontentloaded ::
  "host \<Rightarrow> engine \<Rightarrow> scenario_spec \<Rightarrow> ledger \<Rightarrow> string \<times> evaluated
     \<Rightarrow> (ledger \<times> emission list \<times> log list) completion" where
  "domcontentloaded h eng spec L ev =
     (if \<not> extendedMetrics eng then Normal (L, [], [])
      else
        (case snd ev of
           EvalThrows e \<Rightarrow> Normal (L, [], [DomContentLoadedError e])
         | Evaluated NotJson \<Rightarrow> Normal (L, [], [DomContentLoadedError SyntaxError])
         | Evaluated (Parsed performanceTiming) \<Rightarrow>
             (case timing_name h eng spec (fst ev) performanceTiming of
                Inl e \<Rightarrow> Normal (L, [], [DomContentLoadedError e])
              | Inr timingName \<Rightarrow>
                  if ledger_has L timingName then Normal (L, [], [])
                  else
                    (let L' = L(timingName \<mapsto> performanceTiming)
                     in case start_to_interactive h performanceTiming of
                          Inl e \<Rightarrow> Normal (L', [], [DomContentLoadedError e])
                        | Inr startToInteractive \<Rightarrow>
                            Normal (L', dcl_emissions (getName eng spec (fst ev)) startToInteractive,
                                    [])))))"

subsection \<open>\<open>console\<close>\<close>

record console_message =
  msg_type :: string
  msg_text :: parse_result

text \<open>\<open>url.startsWith(targetInScenario)\<close> on two strings.\<close>

definition startsWith :: "string \<Rightarrow> string \<Rightarrow> bool" where
  "startsWith s t = (take (length t) s = t)"

text \<open>
  The destructuring \<open>const { name, value, url } = metric\<close> reads the three properties
  (and throws on \<open>null\<close>); \<open>url.startsWith\<close> exists only when \<open>url\<close> is a string, and the
  call throws otherwise, before the override is looked at.
\<close>

definition console_trace :: "host \<Rightarrow> engine \<Rightarrow> scenario_spec \<Rightarrow> jsval \<Rightarrow> error + emission list" where
  "console_trace h eng spec metric =
     (case get_prop metric ''name'' of
        Inl e \<Rightarrow> Inl e
      | Inr name \<Rightarrow>
          (case get_prop metric ''value'' of
             Inl e \<Rightarrow> Inl e
           | Inr val \<Rightarrow>
               (case get_prop metric ''url'' of
                  Inl e \<Rightarrow> Inl e
                | Inr (JStr url) \<Rightarrow>
                    if startsWith url (target eng) \<or> showAllPageMetrics eng then
                      (case str_concat h ''browser.page.'' name of
                         Inl e \<Rightarrow> Inl e
                       | Inr pre \<Rightarrow> Inr [Histogram (pre @ ''.'' @ getName eng spec url) val])
                    else Inr []
                | Inr _ \<Rightarrow> Inl TypeError)))"

definition console ::
  "host \<Rightarrow> engine \<Rightarrow> scenario_spec \<Rightarrow> console_message \<Rightarrow> (emission list \<times> log list) completion" where
  "console h eng spec message =
     (if msg_type message = ''trace'' then
        (case msg_text message of
           NotJson \<Rightarrow> Normal ([], [ConsoleError SyntaxError])
         | Parsed metric \<Rightarrow>
             (case console_trace h eng spec metric of
                Inl e \<Rightarrow> Normal ([], [ConsoleError e])
              | Inr out \<Rightarrow> Normal (out, [])))
      else Normal ([], []))"

subsection \<open>\<open>load\<close>, \<open>requestfinished\<close>\<close>

text \<open>\<open>usedJSHeapSize / 1000 / 1000\<close> after \<open>const { usedJSHeapSize } = JSON.parse(...)\<close>\<close>

definition memory_used_mb :: "host \<Rightarrow> jsval \<Rightarrow> error + jsval" where
  "memory_used_mb h heap =
     (case get_prop heap ''usedJSHeapSize'' of
        Inl e \<Rightarrow> Inl e
      | Inr usedJSHeapSize \<Rightarrow>
          (case js_div_lit h usedJSHeapSize 1000 of
             Inl e \<Rightarrow> Inl e
           | Inr k \<Rightarrow> js_div_lit h k 1000))"

definition load ::
  "host \<Rightarrow> engine \<Rightarrow> string \<times> evaluated \<Rightarrow> (emission list \<times> log list) completion" where
  "load h eng ev =
     (if \<not> extendedMetrics eng then Normal ([], [])
      else
        (case snd ev of
           EvalThrows e \<Rightarrow> Normal ([], [LoadError e])
         | Evaluated NotJson \<Rightarrow> Normal ([], [LoadError SyntaxError])
         | Evaluated (Parsed heap) \<Rightarrow>
             (case memory_used_mb h heap of
                Inl e \<Rightarrow> Normal ([], [LoadError e])
              | Inr mb \<Rightarrow> Normal ([Histogram ''browser.memory_used_mb'' mb], []))))"

definition requestfinished :: "emission list" where
  "requestfinished = [Counter ''browser.http_requests'' 1]"

text \<open>A sequence of \<open>load\<close> events: each firing is handled on its own.\<close>

fun load_all :: "host \<Rightarrow> engine \<Rightarrow> (string \<times> evaluated) list \<Rightarrow> emission list" where
  "load_all h eng [] = []"
| "load_all h eng (ev # evs) =
     (case load h eng ev of
        Normal (out, logs) \<Rightarrow> out @ load_all h eng evs
      | Raised e \<Rightarrow> [])"

text \<open>
  A sequence of \<open>domcontentloaded\<close> firings on one page session: the ledger is threaded
  through, the emissions are collected in order.
\<close>

fun dcl_all ::
  "host \<Rightarrow> engine \<Rightarrow> scenario_spec \<Rightarrow> ledger \<Rightarrow> (string \<times> evaluated) list
     \<Rightarrow> ledger \<times> emission list" where
  "dcl_all h eng spec L [] = (L, [])"
| "dcl_all h eng spec L (ev # evs) =
     (case domcontentloaded h eng spec L ev of
        Normal (L', out, logs) \<Rightarrow>
          (case dcl_all h eng spec L' evs of (L'', outs) \<Rightarrow> (L'', out @ outs))
      | Raised e \<Rightarrow> (L, []))"

section \<open>The scenario: acquisition, flow, release\<close>

text \<open>
  The scenario function is a sequence of calls into the browser, the flow function and
  the callback, each of which may throw. The model records the calls in the order they
  are made and is told, by the record \<open>world\<close>, which of them throw (\<open>None\<close>: the call
  returns). A call that throws is still recorded: it was made. \<open>events.emit\<close>,
  \<open>page.on\<close> and \<open>console.error\<close> do not throw.
\<close>

datatype 'c action =
    EmitStarted
  | Launch
  | NewContext
  | SetDefaultNavigationTimeout jsval
  | SetDefaultTimeout jsval
  | AddInitScript string
  | NewPage
  | PageOn string
  | FlowFunction 'c
  | PageClose
  | Callback "error option" 'c
  | LogError error
  | ContextClose
  | BrowserClose

record world =
  launch_throws :: "error option"
  newContext_throws :: "error option"
  setDefaultNavigationTimeout_throws :: "error option"
  setDefaultTimeout_throws :: "error option"
  addInitScript_vitals_throws :: "error option"
  addInitScript_stats_throws :: "error option"
  newPage_throws :: "error option"
  flowFunction_throws :: "error option"
  pageClose_throws :: "error option"
  callback_throws :: "error option"
  callback_error_throws :: "error option"
  contextClose_throws :: "error option"
  browserClose_throws :: "error option"

text \<open>How the scenario ends: it returns the context or \<open>undefined\<close>, or it throws.\<close>

datatype 'c outcome = Returned "'c option" | Thrown error

text \<open>Calls made in order, up to and with the first that throws.\<close>

fun run_calls :: "('c action \<times> error option) list \<Rightarrow> 'c action list \<times> error option" where
  "run_calls [] = ([], None)"
| "run_calls ((a, None) # rest) = (case run_calls rest of (tr, r) \<Rightarrow> (a # tr, r))"
| "run_calls ((a, Some e) # rest) = ([a], Some e)"

text \<open>Lines 63 to 80: before the \<open>try\<close>.\<close>

definition acquire :: "engine \<Rightarrow> world \<Rightarrow> 'c action list \<times> error option" where
  "acquire eng w =
     run_calls
       [(EmitStarted, None),
        (Launch, launch_throws w),
        (NewContext, newContext_throws w),
        (SetDefaultNavigationTimeout (defaultNavigationTimeout eng),
           setDefaultNavigationTimeout_throws w),
        (SetDefaultTimeout (defaultTimeout eng), setDefaultTimeout_throws w)]"

text \<open>Lines 85 to 197: the body of the \<open>try\<close>; the callback is called when supplied.\<close>

definition try_body :: "world \<Rightarrow> 'c \<Rightarrow> bool \<Rightarrow> 'c action list \<times> error option" where
  "try_body w initialContext callback =
     run_calls
       ([(AddInitScript ''WEB_VITALS_SCRIPT'', addInitScript_vitals_throws w),
         (AddInitScript ''statsToConsole'', addInitScript_stats_throws w),
         (NewPage, newPage_throws w),
         (PageOn ''domcontentloaded'', None),
         (PageOn ''console'', None),
         (PageOn ''load'', None),
         (PageOn ''pageerror'', None),
         (PageOn ''requestfinished'', None),
         (FlowFunction initialContext, flowFunction_throws w),
         (PageClose, pageClose_throws w)]
        @ (if callback then [(Callback None initialContext, callback_throws w)] else []))"

text \<open>Lines 199 to 205: the \<open>catch\<close>, entered with the error thrown in the \<open>try\<close>.\<close>

definition catch_block ::
  "world \<Rightarrow> 'c \<Rightarrow> bool \<Rightarrow> error \<Rightarrow> 'c action list \<times> 'c outcome" where
  "catch_block w initialContext callback err =
     (if callback then
        ([LogError err, Callback (Some err) initialContext],
         (case callback_error_throws w of None \<Rightarrow> Returned None | Some e \<Rightarrow> Thrown e))
      else ([LogError err], Thrown err))"

text \<open>Lines 206 to 209: the \<open>finally\<close>.\<close>

definition finally_block :: "world \<Rightarrow> 'c action list \<times> error option" where
  "finally_block w =
     run_calls [(ContextClose, contextClose_throws w), (BrowserClose, browserClose_throws w)]"

text \<open>
  The scenario function. An error thrown before the \<open>try\<close> leaves at once. Otherwise the
  \<open>finally\<close> runs after the \<open>try\<close> and the \<open>catch\<close>, and an error thrown by it replaces
  their result.
\<close>

definition scenario ::
  "engine \<Rightarrow> world \<Rightarrow> 'c \<Rightarrow> bool \<Rightarrow> 'c action list \<times> 'c outcome" where
  "scenario eng w initialContext callback =
     (case acquire eng w of
        (pre, Some e) \<Rightarrow> (pre, Thrown e)
      | (pre, None) \<Rightarrow>
          (let (body, thrown) = try_body w initialContext callback;
               (handled, result) =
                 (case thrown of
                    None \<Rightarrow> ([], Returned (Some initialContext))
                  | Some err \<Rightarrow> catch_block w initialContext callback err);
               (released, thrown') = finally_block w
           in (pre @ body @ handled @ released,
               (case thrown' of None \<Rightarrow> result | Some e \<Rightarrow> Thrown e))))"

section \<open>Concrete inputs for the examples\<close>

text \<open>
  A host for the concrete examples below. None of them reaches the two conversions it
  stands for.
\<close>

definition plain_host :: host where
  "plain_host = \<lparr>frac_to_string = (\<lambda>r. []), string_to_number = (\<lambda>s. JNaN)\<rparr>"

definition example_engine :: engine where
  "example_engine =
     \<lparr>target = ''http://t'', defaultNavigationTimeout = JNum 30000,
      defaultTimeout = JNum 30000, aggregateByName = JBool False,
      extendedMetrics = True, showAllPageMetrics = False\<rparr>"

definition aggregating_engine :: engine where
  "aggregating_engine = example_engine\<lparr>aggregateByName := JBool True\<rparr>"

definition show_all_engine :: engine where
  "show_all_engine = example_engine\<lparr>showAllPageMetrics := True\<rparr>"

definition timing_record :: jsval where
  "timing_record =
     JObj [(''navigationStart'', JNum 100), (''connectStart'', JNum 5),
           (''domInteractive'', JNum 180)]"

definition other_record :: jsval where
  "other_record =
     JObj [(''navigationStart'', JNum 200), (''connectStart'', JNum 7),
           (''domInteractive'', JNum 260)]"

definition lcp_report :: jsval where
  "lcp_report =
     JObj [(''name'', JStr ''LCP''), (''value'', JNum 1200), (''url'', JStr ''http://ads/x'')]"

definition nameless_report :: jsval where
  "nameless_report = JObj [(''value'', JNum 1), (''url'', JStr ''http://t/x'')]"

definition urlless_report :: jsval where
  "urlless_report = JObj [(''name'', JStr ''LCP''), (''value'', JNum 1200)]"

definition incomplete_record :: jsval where
  "incomplete_record = JObj [(''navigationStart'', JNum 100), (''connectStart'', JNum 5)]"

definition backwards_record :: jsval where
  "backwards_record =
     JObj [(''navigationStart'', JNum 180), (''connectStart'', JNum 5),
           (''domInteractive'', JNum 100)]"

definition heap_sample :: jsval where
  "heap_sample =
     JObj [(''jsHeapSizeLimit'', JNum 2172649472), (''totalJSHeapSize'', JNum 60000000),
           (''usedJSHeapSize'', JNum 52000000)]"

definition quiet_world :: world where
  "quiet_world =
     \<lparr>launch_throws = None, newContext_throws = None,
      setDefaultNavigationTimeout_throws = None, setDefaultTimeout_throws = None,
      addInitScript_vitals_throws = None, addInitScript_stats_throws = None,
      newPage_throws = None, flowFunction_throws = None, pageClose_throws = None,
      callback_throws = None, callback_error_throws = None,
      contextClose_throws = None, browserClose_throws = None\<rparr>"

definition no_context_world :: world where
  "no_context_world = quiet_world\<lparr>newContext_throws := Some (HostError ''no context'')\<rparr>"

definition failing_flow_world :: world where
  "failing_flow_world = quiet_world\<lparr>flowFunction_throws := Some (HostError ''flow failed'')\<rparr>"

definition stuck_context_world :: world where
  "stuck_context_world = quiet_world\<lparr>contextClose_throws := Some (HostError ''close failed'')\<rparr>"

definition user_context :: jsval where
  "user_context = JObj [(''vars'', JObj [])]"



definition odd_heap_sample :: jsval where
  "odd_heap_sample =
     JObj [(''jsHeapSizeLimit'', JNum 2172649472), (''totalJSHeapSize'', JNum 60000000),
           (''usedJSHeapSize'', JNum 52000004)]"

definition no_page_world :: world where
  "no_page_world = quiet_world\<lparr>newPage_throws := Some (HostError ''no page'')\<rparr>"

section \<open>The dedup ledger is idempotent\<close>

lemmas show_simps = number_to_string_def show_int_def digits_of.simps digit_char_def

lemma dcl_returns:
  "\<exists>L' out logs. domcontentloaded h eng spec L ev = Normal (L', out, logs)"
  by (simp add: domcontentloaded_def Let_def split: evaluated.split parse_result.split sum.split)

lemma dcl_keeps_recorded:
  assumes "L k = Some v" and "truthy v"
    and "domcontentloaded h eng spec L ev = Normal (L', out, logs)"
  shows "L' k = Some v"
proof -
  have has: "ledger_has L k"
    using assms(1,2) by (simp add: ledger_has_def)
  show ?thesis
    using assms(1,3) has
    by (auto simp: domcontentloaded_def Let_def
        split: if_splits evaluated.splits parse_result.splits sum.splits)
qed

lemma dcl_all_keeps_recorded:
  "L k = Some v \<Longrightarrow> truthy v \<Longrightarrow> dcl_all h eng spec L evs = (L', outs) \<Longrightarrow> L' k = Some v"
proof (induction evs arbitrary: L L' outs)
  case Nil
  then show ?case by simp
next
  case (Cons ev evs)
  obtain L1 out logs where step: "domcontentloaded h eng spec L ev = Normal (L1, out, logs)"
    using dcl_returns by blast
  have "L1 k = Some v"
    using dcl_keeps_recorded [where L = L and k = k] Cons.prems(1,2) step by blast
  moreover obtain L2 outs2 where rest: "dcl_all h eng spec L1 evs = (L2, outs2)"
    by (cases "dcl_all h eng spec L1 evs")
  ultimately have "L2 k = Some v"
    using Cons.IH Cons.prems(2) by blast
  moreover have "L' = L2"
    using Cons.prems(3) step rest by simp
  ultimately show ?case by simp
qed

lemma dcl_known_key_noop:
  assumes "L k = Some v" and "truthy v"
    and "timing_name h eng spec url pt = Inr k"
  shows "domcontentloaded h eng spec L (url, Evaluated (Parsed pt)) = Normal (L, [], [])"
  using assms by (simp add: domcontentloaded_def ledger_has_def)

lemma dcl_emits_records:
  assumes "domcontentloaded h eng spec L (url, Evaluated (Parsed pt)) = Normal (L', out, logs)"
    and "out \<noteq> []" and "timing_name h eng spec url pt = Inr k"
  shows "L' = L(k \<mapsto> pt) \<and> \<not> ledger_has L k"
  using assms
  by (auto simp: domcontentloaded_def Let_def split: if_splits sum.splits)

lemma example_timing_name:
  "timing_name plain_host example_engine \<lparr>spec_name = None\<rparr> ''http://t/'' timing_record
     = Inr ''http://t/5''"
  by (simp add: timing_name_def timing_record_def str_concat_def getName_def show_simps)

lemma example_other_name:
  "timing_name plain_host example_engine \<lparr>spec_name = None\<rparr> ''http://t/'' other_record
     = Inr ''http://t/7''"
  by (simp add: timing_name_def other_record_def str_concat_def getName_def show_simps)

lemma example_first_firing:
  "domcontentloaded plain_host example_engine \<lparr>spec_name = None\<rparr> Map.empty
     (''http://t/'', Evaluated (Parsed timing_record))
   = Normal ([''http://t/5'' \<mapsto> timing_record], dcl_emissions ''http://t/'' (JNum 80), [])"
  by (simp add: domcontentloaded_def example_timing_name ledger_has_def object_prototype_keys_def)
     (simp add: example_engine_def start_to_interactive_def timing_record_def js_sub_def getName_def)

lemma example_between:
  "dcl_all plain_host example_engine \<lparr>spec_name = None\<rparr> [''http://t/5'' \<mapsto> timing_record]
     [(''http://t/'', Evaluated (Parsed other_record))]
   = ([''http://t/5'' \<mapsto> timing_record, ''http://t/7'' \<mapsto> other_record],
      dcl_emissions ''http://t/'' (JNum 60))"
  by (simp add: domcontentloaded_def example_other_name ledger_has_def object_prototype_keys_def)
     (simp add: example_engine_def start_to_interactive_def other_record_def js_sub_def getName_def)

text \<open>
  C1. Take a first firing of \<open>domcontentloaded\<close> that recorded a timing record (an
  object) under the key \<open>k\<close> and emitted. Then, after any further firings on the same
  page session, the ledger still holds that record under \<open>k\<close>, and a firing that
  computes the key \<open>k\<close> again emits nothing, logs nothing and leaves the whole ledger
  as it was. The entry under \<open>k\<close> is written once.
\<close>

theorem dedup_idempotent:
  assumes "domcontentloaded h eng spec L0 (url1, Evaluated (Parsed (JObj fs)))
             = Normal (L1, out1, logs1)"
    and "out1 \<noteq> []"
    and "timing_name h eng spec url1 (JObj fs) = Inr k"
    and "dcl_all h eng spec L1 evs = (L2, outs)"
    and "timing_name h eng spec url2 pt2 = Inr k"
  shows "L1 k = Some (JObj fs) \<and> L2 k = Some (JObj fs) \<and>
         domcontentloaded h eng spec L2 (url2, Evaluated (Parsed pt2)) = Normal (L2, [], [])"
proof -
  have l1: "L1 k = Some (JObj fs)"
    using dcl_emits_records [OF assms(1,2,3)] by simp
  have l2: "L2 k = Some (JObj fs)"
    using dcl_all_keeps_recorded [where L = L1 and k = k and v = "JObj fs"] l1 assms(4) by simp
  show ?thesis
    using l1 l2 dcl_known_key_noop [where L = L2 and k = k and v = "JObj fs"] assms(5) by simp
qed

theorem dedup_idempotent_witness:
  "domcontentloaded plain_host example_engine \<lparr>spec_name = None\<rparr>
     [''http://t/5'' \<mapsto> timing_record, ''http://t/7'' \<mapsto> other_record]
     (''http://t/'', Evaluated (Parsed timing_record))
   = Normal ([''http://t/5'' \<mapsto> timing_record, ''http://t/7'' \<mapsto> other_record], [], [])"
proof -
  have e: "dcl_emissions ''http://t/'' (JNum 80) \<noteq> []"
    by (simp add: dcl_emissions_def)
  show ?thesis
    using dedup_idempotent [OF example_first_firing [unfolded timing_record_def] e
        example_timing_name [unfolded timing_record_def]
        example_between [unfolded timing_record_def]
        example_timing_name]
    by (simp add: timing_record_def)
qed

section \<open>The first recording of a page load\<close>

text \<open>
  C6. With extended metrics enabled, a firing whose key is not yet in the ledger and
  whose record has numbers for \<open>domInteractive\<close> and \<open>navigationStart\<close> records the record
  and emits exactly four observations: the counter \<open>browser.page.domcontentloaded\<close> and
  its name-qualified variant, both with delta 1, and the histogram
  \<open>browser.page.dominteractive\<close> and its name-qualified variant, both carrying
  \<open>domInteractive - navigationStart\<close>.
\<close>

theorem dcl_first_recording:
  assumes "extendedMetrics eng"
    and "timing_name h eng spec url pt = Inr k"
    and "\<not> ledger_has L k"
    and "get_prop pt ''domInteractive'' = Inr (JNum di)"
    and "get_prop pt ''navigationStart'' = Inr (JNum ns)"
  shows "domcontentloaded h eng spec L (url, Evaluated (Parsed pt)) =
           Normal (L(k \<mapsto> pt),
                   [Counter ''browser.page.domcontentloaded'' 1,
                    Counter (''browser.page.domcontentloaded.'' @ getName eng spec url) 1,
                    Histogram ''browser.page.dominteractive'' (JNum (di - ns)),
                    Histogram (''browser.page.dominteractive.'' @ getName eng spec url)
                      (JNum (di - ns))],
                   [])"
  using assms
  by (simp add: domcontentloaded_def start_to_interactive_def js_sub_def dcl_emissions_def)

text \<open>With \<open>navigationStart = 100\<close> and \<open>domInteractive = 180\<close> the value is 80.\<close>

theorem dcl_first_recording_witness:
  "domcontentloaded plain_host example_engine \<lparr>spec_name = None\<rparr> Map.empty
     (''http://t/'', Evaluated (Parsed timing_record))
   = Normal ([''http://t/5'' \<mapsto> timing_record],
             [Counter ''browser.page.domcontentloaded'' 1,
              Counter ''browser.page.domcontentloaded.http://t/'' 1,
              Histogram ''browser.page.dominteractive'' (JNum 80),
              Histogram ''browser.page.dominteractive.http://t/'' (JNum 80)],
             [])"
proof -
  have x: "extendedMetrics example_engine"
    by (simp add: example_engine_def)
  have n: "\<not> ledger_has Map.empty ''http://t/5''"
    by (simp add: ledger_has_def object_prototype_keys_def)
  have di: "get_prop timing_record ''domInteractive'' = Inr (JNum 180)"
    and ns: "get_prop timing_record ''navigationStart'' = Inr (JNum 100)"
    by (simp_all add: timing_record_def)
  show ?thesis
    using dcl_first_recording [OF x example_timing_name n di ns]
    by (simp add: getName_def)
qed

section \<open>The naming policy\<close>

text \<open>
  C2, as the code has it. \<open>getName\<close> depends on the configuration and the URL only.
  It returns the scenario name when aggregation by name is enabled and a non-empty
  name is declared; metric names built from it are then the same for any two URLs. In
  every other case (aggregation disabled, no name declared, the empty name declared)
  it returns the URL unchanged, and metric names built from it differ for distinct
  URLs.
\<close>

theorem getName_policy:
  "(truthy (aggregateByName eng) \<and> spec_name spec = Some n \<and> n \<noteq> [] \<longrightarrow>
      getName eng spec url = n \<and> pre @ getName eng spec u1 = pre @ getName eng spec u2)
   \<and> (\<not> truthy (aggregateByName eng) \<or> spec_name spec = None \<or> spec_name spec = Some [] \<longrightarrow>
      getName eng spec url = url
      \<and> (u1 \<noteq> u2 \<longrightarrow> pre @ getName eng spec u1 \<noteq> pre @ getName eng spec u2))"
  by (auto simp: getName_def split: option.splits)

theorem getName_policy_witness:
  "getName aggregating_engine \<lparr>spec_name = Some ''checkout''\<rparr> ''http://t/a'' = ''checkout''
   \<and> ''browser.page.dominteractive.''
         @ getName aggregating_engine \<lparr>spec_name = Some ''checkout''\<rparr> ''http://t/a''
     = ''browser.page.dominteractive.''
         @ getName aggregating_engine \<lparr>spec_name = Some ''checkout''\<rparr> ''http://t/b''
   \<and> getName example_engine \<lparr>spec_name = Some ''checkout''\<rparr> ''http://t/a'' = ''http://t/a''
   \<and> ''browser.page.dominteractive.''
         @ getName example_engine \<lparr>spec_name = Some ''checkout''\<rparr> ''http://t/a''
     \<noteq> ''browser.page.dominteractive.''
         @ getName example_engine \<lparr>spec_name = Some ''checkout''\<rparr> ''http://t/b''"
proof -
  have a: "truthy (aggregateByName aggregating_engine)"
    by (simp add: aggregating_engine_def example_engine_def)
  have b: "\<not> truthy (aggregateByName example_engine)"
    by (simp add: example_engine_def)
  have c: "''http://t/a'' \<noteq> ''http://t/b''" by simp
  show ?thesis
    using a b c
      getName_policy [of aggregating_engine "\<lparr>spec_name = Some ''checkout''\<rparr>" "''checkout''"
        "''http://t/a''" "''browser.page.dominteractive.''" "''http://t/a''" "''http://t/b''"]
      getName_policy [of example_engine "\<lparr>spec_name = Some ''checkout''\<rparr>" "''checkout''"
        "''http://t/a''" "''browser.page.dominteractive.''" "''http://t/a''" "''http://t/b''"]
    by auto
qed

text \<open>
  The claim as written fails for a scenario that declares the empty name: with
  aggregation enabled, \<open>getName\<close> then returns the URL, not the declared name, and two
  URLs keep two names.
\<close>

theorem getName_empty_name_counterexample:
  "getName aggregating_engine \<lparr>spec_name = Some ''''\<rparr> ''http://t/a'' \<noteq> ''''
   \<and> getName aggregating_engine \<lparr>spec_name = Some ''''\<rparr> ''http://t/a''
       \<noteq> getName aggregating_engine \<lparr>spec_name = Some ''''\<rparr> ''http://t/b''"
  by (simp add: getName_def aggregating_engine_def example_engine_def)

section \<open>Console trace metrics\<close>

text \<open>
  C3. A trace message that decodes to a report with a string \<open>name\<close>, a \<open>value\<close> and
  a string \<open>url\<close> yields exactly one histogram, named
  \<open>browser.page.<name>.<getName(url)>\<close> and carrying the value, when the URL starts
  with the target or the override \<open>showAllPageMetrics\<close> is set; otherwise it yields
  nothing. Nothing is logged either way.
\<close>

theorem console_gate:
  assumes "msg_type m = ''trace''" and "msg_text m = Parsed metric"
    and "get_prop metric ''name'' = Inr (JStr n)"
    and "get_prop metric ''value'' = Inr v"
    and "get_prop metric ''url'' = Inr (JStr u)"
  shows "console h eng spec m =
           Normal (if startsWith u (target eng) \<or> showAllPageMetrics eng
                   then [Histogram (''browser.page.'' @ n @ ''.'' @ getName eng spec u) v]
                   else [], [])"
  using assms by (simp add: console_def console_trace_def str_concat_def)

text \<open>A report from another origin: dropped by default, emitted once under the override.\<close>

theorem console_gate_witness:
  "console plain_host example_engine \<lparr>spec_name = None\<rparr>
     \<lparr>msg_type = ''trace'', msg_text = Parsed lcp_report\<rparr> = Normal ([], [])
   \<and> console plain_host show_all_engine \<lparr>spec_name = None\<rparr>
     \<lparr>msg_type = ''trace'', msg_text = Parsed lcp_report\<rparr>
     = Normal ([Histogram ''browser.page.LCP.http://ads/x'' (JNum 1200)], [])"
proof -
  have n: "get_prop lcp_report ''name'' = Inr (JStr ''LCP'')"
    and v: "get_prop lcp_report ''value'' = Inr (JNum 1200)"
    and u: "get_prop lcp_report ''url'' = Inr (JStr ''http://ads/x'')"
    by (simp_all add: lcp_report_def)
  have t: "msg_type \<lparr>msg_type = ''trace'', msg_text = Parsed lcp_report\<rparr> = ''trace''"
    and p: "msg_text \<lparr>msg_type = ''trace'', msg_text = Parsed lcp_report\<rparr> = Parsed lcp_report"
    by simp_all
  show ?thesis
    using console_gate [OF t p n v u, of plain_host example_engine "\<lparr>spec_name = None\<rparr>"]
      console_gate [OF t p n v u, of plain_host show_all_engine "\<lparr>spec_name = None\<rparr>"]
    by (simp add: example_engine_def show_all_engine_def startsWith_def getName_def)
qed

lemma console_trace_no_string_url:
  assumes "\<forall>u. get_prop metric ''url'' \<noteq> Inr (JStr u)"
  shows "console_trace h eng spec metric = Inl TypeError"
proof (cases "get_prop metric ''url''")
  case (Inl e)
  then have "metric = JUndefined \<or> metric = JNull"
    by (cases metric) (auto split: option.splits)
  then show ?thesis
    by (auto simp: console_trace_def)
next
  case (Inr w)
  then have "get_prop metric ''name'' \<noteq> Inl e" and "get_prop metric ''value'' \<noteq> Inl e" for e
    by (cases metric; simp split: option.splits)+
  then show ?thesis
    using Inr assms
    by (cases w) (auto simp: console_trace_def split: sum.splits)
qed

text \<open>
  C9. A trace message whose text is valid JSON but has no string under \<open>url\<close> (the
  property is absent, or holds something else, or the value is not an object at all)
  yields no histogram even when \<open>showAllPageMetrics\<close> is set: \<open>url.startsWith\<close> is
  evaluated before the override, throws a \<open>TypeError\<close>, and the \<open>catch\<close> only logs it.
\<close>

theorem console_url_checked_before_override:
  assumes "msg_type m = ''trace''" and "msg_text m = Parsed metric"
    and "\<forall>u. get_prop metric ''url'' \<noteq> Inr (JStr u)"
    and "showAllPageMetrics eng"
  shows "console h eng spec m = Normal ([], [ConsoleError TypeError])"
  using assms(1,2) console_trace_no_string_url [OF assms(3)]
  by (simp add: console_def)

theorem console_url_checked_before_override_witness:
  "showAllPageMetrics show_all_engine
   \<and> console plain_host show_all_engine \<lparr>spec_name = None\<rparr>
       \<lparr>msg_type = ''trace'', msg_text = Parsed urlless_report\<rparr>
     = Normal ([], [ConsoleError TypeError])"
proof -
  have t: "msg_type \<lparr>msg_type = ''trace'', msg_text = Parsed urlless_report\<rparr> = ''trace''"
    and p: "msg_text \<lparr>msg_type = ''trace'', msg_text = Parsed urlless_report\<rparr>
              = Parsed urlless_report"
    by simp_all
  have u: "\<forall>u. get_prop urlless_report ''url'' \<noteq> Inr (JStr u)"
    by (simp add: urlless_report_def)
  have s: "showAllPageMetrics show_all_engine"
    by (simp add: show_all_engine_def)
  show ?thesis
    using s console_url_checked_before_override [OF t p u s, of plain_host "\<lparr>spec_name = None\<rparr>"]
    by simp
qed

text \<open>
  C8, as the code has it. The \<open>console\<close> handler always returns: no exception leaves
  it. A trace message whose text is not valid JSON, or whose decoded value has no
  string under \<open>url\<close>, yields no emission and one log line. (A decoded report that has
  its \<open>url\<close> is not checked for \<open>name\<close> or \<open>value\<close>.)
\<close>

theorem console_drops_undecodable:
  "(\<exists>out logs. console h eng spec m = Normal (out, logs))
   \<and> (msg_type m = ''trace'' \<and>
        (msg_text m = NotJson \<or>
         (\<exists>metric. msg_text m = Parsed metric \<and> (\<forall>u. get_prop metric ''url'' \<noteq> Inr (JStr u))))
      \<longrightarrow> (\<exists>err. console h eng spec m = Normal ([], [ConsoleError err])))"
proof -
  have "\<exists>out logs. console h eng spec m = Normal (out, logs)"
    by (simp add: console_def split: parse_result.split sum.split)
  moreover have "\<exists>err. console h eng spec m = Normal ([], [ConsoleError err])"
    if "msg_type m = ''trace''" and "msg_text m = NotJson"
    using that by (simp add: console_def)
  moreover have "\<exists>err. console h eng spec m = Normal ([], [ConsoleError err])"
    if "msg_type m = ''trace''" and "msg_text m = Parsed metric"
      and "\<forall>u. get_prop metric ''url'' \<noteq> Inr (JStr u)" for metric
    using that(1,2) console_trace_no_string_url [OF that(3)]
    by (simp add: console_def)
  ultimately show ?thesis by blast
qed

theorem console_drops_undecodable_witness:
  "msg_type \<lparr>msg_type = ''trace'', msg_text = NotJson\<rparr> = ''trace''
   \<and> (\<exists>err. console plain_host example_engine \<lparr>spec_name = None\<rparr>
               \<lparr>msg_type = ''trace'', msg_text = NotJson\<rparr>
             = Normal ([], [ConsoleError err]))"
  using console_drops_undecodable [of plain_host example_engine "\<lparr>spec_name = None\<rparr>"
      "\<lparr>msg_type = ''trace'', msg_text = NotJson\<rparr>"]
  by simp

text \<open>
  The claim as written fails for a report that lacks an expected field other than
  \<open>url\<close>: without \<open>name\<close>, a histogram named with \<open>undefined\<close> is emitted.
\<close>

theorem console_missing_name_counterexample:
  "console plain_host example_engine \<lparr>spec_name = None\<rparr>
     \<lparr>msg_type = ''trace'', msg_text = Parsed nameless_report\<rparr>
   = Normal ([Histogram ''browser.page.undefined.http://t/x'' (JNum 1)], [])"
  by (simp add: console_def console_trace_def nameless_report_def str_concat_def
      example_engine_def startsWith_def getName_def)

section \<open>Errors in the \<open>domcontentloaded\<close> handler\<close>

text \<open>
  C4, as the code has it. With extended metrics enabled, a firing is discarded (one
  log line, no counter, no histogram, the ledger untouched) when the evaluation
  throws, when its result is not valid JSON, and when it parses to \<open>null\<close>. (A record
  that parses to an object is not checked for missing fields or for the sign of the
  difference.)
\<close>

theorem dcl_discards_on_exception:
  assumes "extendedMetrics eng"
  shows "domcontentloaded h eng spec L (url, EvalThrows e)
           = Normal (L, [], [DomContentLoadedError e])
       \<and> domcontentloaded h eng spec L (url, Evaluated NotJson)
           = Normal (L, [], [DomContentLoadedError SyntaxError])
       \<and> domcontentloaded h eng spec L (url, Evaluated (Parsed JNull))
           = Normal (L, [], [DomContentLoadedError TypeError])"
  using assms by (simp add: domcontentloaded_def timing_name_def)

theorem dcl_discards_on_exception_witness:
  "extendedMetrics example_engine
   \<and> domcontentloaded plain_host example_engine \<lparr>spec_name = None\<rparr> Map.empty
       (''http://t/'', EvalThrows (HostError ''Target closed''))
     = Normal (Map.empty, [], [DomContentLoadedError (HostError ''Target closed'')])
   \<and> domcontentloaded plain_host example_engine \<lparr>spec_name = None\<rparr> Map.empty
       (''http://t/'', Evaluated NotJson)
     = Normal (Map.empty, [], [DomContentLoadedError SyntaxError])
   \<and> domcontentloaded plain_host example_engine \<lparr>spec_name = None\<rparr> Map.empty
       (''http://t/'', Evaluated (Parsed JNull))
     = Normal (Map.empty, [], [DomContentLoadedError TypeError])"
proof -
  have x: "extendedMetrics example_engine"
    by (simp add: example_engine_def)
  show ?thesis
    using x dcl_discards_on_exception [OF x, of plain_host "\<lparr>spec_name = None\<rparr>" Map.empty
        "''http://t/''" "HostError ''Target closed''"]
    by simp
qed

text \<open>
  The claim as written fails for a record without \<open>domInteractive\<close>: the subtraction
  gives \<open>NaN\<close>, nothing is thrown, and the record is stored and emitted.
\<close>

theorem dcl_missing_field_counterexample:
  "domcontentloaded plain_host example_engine \<lparr>spec_name = None\<rparr> Map.empty
     (''http://t/'', Evaluated (Parsed incomplete_record))
   = Normal ([''http://t/5'' \<mapsto> incomplete_record],
             [Counter ''browser.page.domcontentloaded'' 1,
              Counter ''browser.page.domcontentloaded.http://t/'' 1,
              Histogram ''browser.page.dominteractive'' JNaN,
              Histogram ''browser.page.dominteractive.http://t/'' JNaN],
             [])"
  by (simp add: domcontentloaded_def timing_name_def incomplete_record_def str_concat_def
      getName_def show_simps ledger_has_def object_prototype_keys_def example_engine_def
      start_to_interactive_def js_sub_def dcl_emissions_def)

text \<open>A record whose \<open>domInteractive\<close> lies before \<open>navigationStart\<close> is emitted too.\<close>

lemma dcl_negative_difference_emitted:
  "domcontentloaded plain_host example_engine \<lparr>spec_name = None\<rparr> Map.empty
     (''http://t/'', Evaluated (Parsed backwards_record))
   = Normal ([''http://t/5'' \<mapsto> backwards_record],
             [Counter ''browser.page.domcontentloaded'' 1,
              Counter ''browser.page.domcontentloaded.http://t/'' 1,
              Histogram ''browser.page.dominteractive'' (JNum (- 80)),
              Histogram ''browser.page.dominteractive.http://t/'' (JNum (- 80))],
             [])"
  by (simp add: domcontentloaded_def timing_name_def backwards_record_def str_concat_def
      getName_def show_simps ledger_has_def object_prototype_keys_def example_engine_def
      start_to_interactive_def js_sub_def dcl_emissions_def)

section \<open>The heap sample on \<open>load\<close>\<close>

lemma floor_numeral_div:
  "\<lfloor>(numeral a :: rat) / numeral b\<rfloor> = numeral a div numeral b"
  using floor_divide_of_int_eq [of "numeral a" "numeral b", where ?'a = rat] by simp

lemmas double_simps =
  round_double_def exponent_of_def round_even_def pow2_def bits.simps Let_def floor_numeral_div

text \<open>
  Known doubles: the double of \<open>0.1\<close>, two ties above \<open>2^53\<close> (to the even
  neighbour), an integer, a negative number.
\<close>

lemma round_double_examples:
  "round_double (1 / 10) = 3602879701896397 / 36028797018963968"
  "round_double 9007199254740993 = 9007199254740992"
  "round_double 9007199254740995 = 9007199254740996"
  "round_double 52000 = 52000"
  "round_double (- 1 / 3) = - (6004799503160661 / 18014398509481984)"
  by (simp_all add: double_simps)

lemma load_numeric:
  assumes "extendedMetrics eng" and "get_prop heap ''usedJSHeapSize'' = Inr (JNum x)"
  shows "load h eng (u, Evaluated (Parsed heap))
           = Normal ([Histogram ''browser.memory_used_mb''
                        (JNum (round_double (round_double (x / 1000) / 1000)))], [])"
  using assms by (simp add: load_def memory_used_mb_def js_div_lit_def)

text \<open>
  Rounding a number of magnitude at least 1 moves it by at most a relative \<open>2^(-53)\<close>.
\<close>

lemma bits_bounds: "0 < n \<Longrightarrow> 2 ^ (bits n - 1) \<le> n \<and> n < 2 ^ bits n"
proof (induction n rule: bits.induct)
  case (1 n)
  show ?case
  proof (cases "n div 2 = 0")
    case True
    then have "n = 1" using "1.prems" by presburger
    then show ?thesis
      by (simp add: bits.simps)
  next
    case False
    let ?m = "n div 2"
    have m: "0 < ?m" using False by simp
    have ih: "2 ^ (bits ?m - 1) \<le> ?m \<and> ?m < 2 ^ bits ?m"
      using "1.IH" "1.prems" m by simp
    have bn: "bits n = Suc (bits ?m)"
      using "1.prems" by (subst bits.simps) simp
    have pos: "0 < bits ?m"
      using m by (subst bits.simps) simp
    then have "(2::nat) ^ bits ?m = 2 * 2 ^ (bits ?m - 1)"
      by (cases "bits ?m") simp_all
    then have lo: "(2::nat) ^ bits ?m \<le> n"
      using ih by presburger
    have hi: "n < 2 * 2 ^ bits ?m"
      using ih by presburger
    show ?thesis
      using lo hi by (simp add: bn)
  qed
qed

lemma pow2_powi: "pow2 e = 2 powi e"
  by (simp add: pow2_def power_int_def power_inverse inverse_eq_divide flip: power_one_over)

lemma pow2_pos: "0 < pow2 e"
  by (simp add: pow2_powi)

lemma exponent_of_ge1:
  assumes "1 \<le> x"
  shows "0 \<le> exponent_of x" and "pow2 (exponent_of x) \<le> x"
    and "x < 2 * pow2 (exponent_of x)"
proof -
  let ?n = "nat \<lfloor>x\<rfloor>"
  have n: "0 < ?n" using assms by simp
  have b: "2 ^ (bits ?n - 1) \<le> ?n \<and> ?n < 2 ^ bits ?n"
    using bits_bounds [OF n] .
  have pos: "0 < bits ?n"
    using n by (subst bits.simps) simp
  have k: "exponent_of x = int (bits ?n - 1)"
    using assms pos by (simp add: exponent_of_def)
  show "0 \<le> exponent_of x" by (simp add: k)
  have nf: "(of_nat ?n :: rat) = of_int \<lfloor>x\<rfloor>"
    using assms by (metis n of_int_of_nat_eq zero_less_nat_eq int_nat_eq less_imp_le)
  have le_x: "(of_nat ?n :: rat) \<le> x"
    unfolding nf by (rule of_int_floor_le)
  have "(2 :: rat) ^ (bits ?n - 1) \<le> of_nat ?n"
    using b by (metis of_nat_le_iff of_nat_numeral of_nat_power)
  then have "(2 :: rat) ^ (bits ?n - 1) \<le> x"
    using le_x by (rule order_trans)
  then show "pow2 (exponent_of x) \<le> x"
    by (simp add: k pow2_def)
  have "x < of_nat ?n + 1"
    unfolding nf by linarith
  moreover have "(of_nat ?n :: rat) + 1 \<le> 2 ^ bits ?n"
  proof -
    have "?n + 1 \<le> 2 ^ bits ?n" using b by linarith
    then show ?thesis
      by (metis of_nat_le_iff of_nat_numeral of_nat_power of_nat_add of_nat_1)
  qed
  moreover have "(2 :: rat) ^ bits ?n = 2 * 2 ^ (bits ?n - 1)"
    using pos by (cases "bits ?n") simp_all
  ultimately show "x < 2 * pow2 (exponent_of x)"
    by (simp add: k pow2_def)
qed

lemma round_even_close: "\<bar>of_int (round_even q) - q\<bar> \<le> 1 / 2"
proof -
  have "of_int \<lfloor>q\<rfloor> \<le> q" and "q < of_int \<lfloor>q\<rfloor> + 1"
    by linarith+
  then show ?thesis
    by (auto simp: round_even_def Let_def abs_le_iff)
qed

lemma round_double_close:
  assumes "1 \<le> x"
  shows "\<bar>round_double x - x\<bar> \<le> x / 2 ^ 53"
proof -
  let ?k = "exponent_of x"
  let ?p = "pow2 (?k - 52)"
  have xpos: "0 < x" using assms by simp
  have e: "max (?k - 52) (- 1074) = ?k - 52"
    using exponent_of_ge1(1) [OF assms] by simp
  have rd: "round_double x = of_int (round_even (x / ?p)) * ?p"
    using xpos e by (simp add: round_double_def Let_def)
  have p: "0 < ?p" by (rule pow2_pos)
  have "\<bar>round_double x - x\<bar> = \<bar>of_int (round_even (x / ?p)) - x / ?p\<bar> * ?p"
  proof -
    have "round_double x - x = (of_int (round_even (x / ?p)) - x / ?p) * ?p"
      using p by (simp add: rd field_simps)
    then show ?thesis
      using p by (simp add: abs_mult)
  qed
  also have "\<dots> \<le> (1 / 2) * ?p"
    using round_even_close [of "x / ?p"] p by (simp add: mult_right_mono)
  also have "\<dots> = pow2 ?k / 2 ^ 53"
    by (simp add: pow2_powi power_int_diff)
  also have "\<dots> \<le> x / 2 ^ 53"
    using exponent_of_ge1(2) [OF assms] by (simp add: divide_right_mono)
  finally show ?thesis .
qed

lemma memory_used_mb_close:
  assumes "2000000 \<le> x"
  shows "\<bar>round_double (round_double (x / 1000) / 1000) - x / 1000000\<bar>
           \<le> (x / 1000000) / 2 ^ 51"
proof -
  define a where "a = x / 1000"
  define ra where "ra = round_double a"
  define b where "b = ra / 1000"
  define v where "v = round_double b"
  define u where "u = a / 2 ^ 53"
  have a: "2000 \<le> a" using assms by (simp add: a_def)
  then have a1: "1 \<le> a" by simp
  have ca: "\<bar>ra - a\<bar> \<le> u"
    unfolding ra_def u_def using round_double_close [OF a1] .
  have u: "0 \<le> u" "u \<le> a / 2"
    using a by (simp_all add: u_def field_simps)
  have ra_lo: "a / 2 \<le> ra" and ra_hi: "ra \<le> 2 * a"
    using ca u a by linarith+
  have b1: "1 \<le> b"
    using ra_lo a by (simp add: b_def)
  have cb: "\<bar>v - b\<bar> \<le> b / 2 ^ 53"
    unfolding v_def using round_double_close [OF b1] .
  have "b / 2 ^ 53 \<le> 2 * u / 1000"
    using ra_hi by (simp add: b_def u_def field_simps)
  then have s1: "\<bar>v - b\<bar> \<le> 2 * u / 1000"
    using cb by linarith
  have "b - a / 1000 = (ra - a) / 1000"
    by (simp add: b_def field_simps)
  then have "\<bar>b - a / 1000\<bar> = \<bar>(ra - a) / 1000\<bar>"
    by (simp only:)
  also have "\<dots> = \<bar>ra - a\<bar> / 1000"
    by (simp only: abs_divide abs_numeral)
  also have "\<dots> \<le> u / 1000"
    using ca by (rule divide_right_mono) simp
  finally have s2: "\<bar>b - a / 1000\<bar> \<le> u / 1000" .
  have "\<bar>v - a / 1000\<bar> \<le> 3 * u / 1000"
    using s1 s2 by linarith
  also have "\<dots> \<le> (x / 1000000) / 2 ^ 51"
    using assms by (simp add: u_def a_def field_simps)
  finally show ?thesis
    by (simp add: v_def b_def ra_def a_def)
qed

lemma load_all_numeric:
  assumes "extendedMetrics eng"
    and "list_all2 (\<lambda>ev x. \<exists>heap. snd ev = Evaluated (Parsed heap) \<and>
                                  get_prop heap ''usedJSHeapSize'' = Inr (JNum x)) evs xs"
  shows "load_all h eng evs
           = map (\<lambda>x. Histogram ''browser.memory_used_mb''
                         (JNum (round_double (round_double (x / 1000) / 1000)))) xs"
  using assms(2)
proof (induction rule: list_all2_induct)
  case Nil
  then show ?case by simp
next
  case (Cons ev evs x xs)
  then obtain heap where "snd ev = Evaluated (Parsed heap)"
    and "get_prop heap ''usedJSHeapSize'' = Inr (JNum x)"
    by blast
  then have "load h eng ev
               = Normal ([Histogram ''browser.memory_used_mb''
                            (JNum (round_double (round_double (x / 1000) / 1000)))], [])"
    using load_numeric [OF assms(1), where heap = heap and x = x and h = h and u = "fst ev"]
    by (cases ev) simp
  then show ?case
    using Cons.IH by simp
qed

text \<open>
  C7, as the code has it. With extended metrics enabled, every \<open>load\<close> event whose
  heap sample parses and holds a number under \<open>usedJSHeapSize\<close> yields exactly one
  histogram \<open>browser.memory_used_mb\<close>. Its value is \<open>usedJSHeapSize / 1000 / 1000\<close> in
  double arithmetic: the quotient by 1000, rounded to a double, divided by 1000 and
  rounded again. For a heap of at least 2,000,000 bytes this value lies within a
  relative \<open>2^(-51)\<close> of \<open>usedJSHeapSize / 1000000\<close>. A sequence of such events yields
  one sample per event, in order: nothing is deduplicated.
\<close>

theorem load_emits_heap_sample:
  assumes "extendedMetrics eng"
    and "list_all2 (\<lambda>ev x. \<exists>heap. snd ev = Evaluated (Parsed heap) \<and>
                                  get_prop heap ''usedJSHeapSize'' = Inr (JNum x)) evs xs"
  shows "load_all h eng evs
           = map (\<lambda>x. Histogram ''browser.memory_used_mb''
                         (JNum (round_double (round_double (x / 1000) / 1000)))) xs
       \<and> (\<forall>x \<in> set xs. 2000000 \<le> x \<longrightarrow>
             \<bar>round_double (round_double (x / 1000) / 1000) - x / 1000000\<bar>
               \<le> (x / 1000000) / 2 ^ 51)"
  using load_all_numeric [OF assms] memory_used_mb_close by blast

text \<open>Two \<open>load\<close> events with \<open>usedJSHeapSize = 52000000\<close>: two samples of exactly 52.\<close>

theorem load_emits_heap_sample_witness:
  "load_all plain_host example_engine
     [(''http://t/'', Evaluated (Parsed heap_sample)),
      (''http://t/'', Evaluated (Parsed heap_sample))]
   = [Histogram ''browser.memory_used_mb'' (JNum 52),
      Histogram ''browser.memory_used_mb'' (JNum 52)]"
proof -
  have x: "extendedMetrics example_engine"
    by (simp add: example_engine_def)
  have l: "list_all2 (\<lambda>ev x. \<exists>heap. snd ev = Evaluated (Parsed heap) \<and>
                                  get_prop heap ''usedJSHeapSize'' = Inr (JNum x))
            [(''http://t/'', Evaluated (Parsed heap_sample)),
             (''http://t/'', Evaluated (Parsed heap_sample))]
            [52000000, 52000000]"
    by (simp add: heap_sample_def)
  have v: "round_double (round_double (52000000 / 1000) / 1000) = 52"
    by (simp add: double_simps)
  show ?thesis
    using load_emits_heap_sample [OF x l, of plain_host] v by simp
qed

text \<open>
  The claim as written fails in the last place. For \<open>usedJSHeapSize = 52000004\<close> the
  two divisions give the double \<open>52.000004000000004\<close>, which is neither the quotient
  \<open>52000004 / 1000000\<close> nor the double nearest to it (what one division by
  \<open>1000000\<close> gives).
\<close>

theorem load_two_divisions_counterexample:
  "load plain_host example_engine (''http://t/'', Evaluated (Parsed odd_heap_sample))
     = Normal ([Histogram ''browser.memory_used_mb''
                  (JNum (3659174978713505 / 70368744177664))], [])
   \<and> (3659174978713505 / 70368744177664 :: rat) \<noteq> 52000004 / 1000000
   \<and> round_double (52000004 / 1000000) = 7318349957427009 / 140737488355328
   \<and> (7318349957427009 / 140737488355328 :: rat) \<noteq> 3659174978713505 / 70368744177664"
proof -
  have a: "round_double (round_double (52000004 / 1000) / 1000)
             = 3659174978713505 / 70368744177664"
    by (simp add: double_simps)
  have b: "round_double (52000004 / 1000000) = 7318349957427009 / 140737488355328"
    by (simp add: double_simps)
  have c: "load plain_host example_engine (''http://t/'', Evaluated (Parsed odd_heap_sample))
     = Normal ([Histogram ''browser.memory_used_mb''
                  (JNum (round_double (round_double (52000004 / 1000) / 1000)))], [])"
    by (simp add: load_def memory_used_mb_def js_div_lit_def odd_heap_sample_def
        example_engine_def)
  show ?thesis
    unfolding c a b by simp
qed

section \<open>Release of the context and the browser\<close>

lemma finally_trace:
  "fst (finally_block w :: 'c action list \<times> error option)
     = ContextClose # (if contextClose_throws w = None then [BrowserClose] else [])"
  by (cases "contextClose_throws w"; cases "browserClose_throws w"; simp add: finally_block_def)

lemma finally_result:
  "contextClose_throws w = None \<Longrightarrow> browserClose_throws w = None \<Longrightarrow>
     snd (finally_block w :: 'c action list \<times> error option) = None"
  by (simp add: finally_block_def)

lemma try_body_flow_throws:
  assumes "addInitScript_vitals_throws w = None" and "addInitScript_stats_throws w = None"
    and "newPage_throws w = None" and "flowFunction_throws w = Some e"
  shows "snd (try_body w ctx cb) = Some e"
  using assms by (simp add: try_body_def)

lemma scenario_unfold:
  assumes "acquire eng w = (pre :: 'c action list, None)"
  shows "scenario eng w (ctx :: 'c) cb
           = (pre @ fst (try_body w ctx cb)
                @ (case snd (try_body w ctx cb) of None \<Rightarrow> []
                     | Some err \<Rightarrow> fst (catch_block w ctx cb err))
                @ fst (finally_block w),
              (case snd (finally_block w :: 'c action list \<times> error option) of
                 Some e \<Rightarrow> Thrown e
               | None \<Rightarrow>
                   (case snd (try_body w ctx cb) of None \<Rightarrow> Returned (Some ctx)
                     | Some err \<Rightarrow> snd (catch_block w ctx cb err))))"
  unfolding scenario_def assms
  by (simp add: split_beta split: option.split)

lemma scenario_closes:
  assumes "acquire eng w = (pre :: 'c action list, None)"
  shows "\<exists>tr. fst (scenario eng w (ctx :: 'c) cb)
                = tr @ ContextClose # (if contextClose_throws w = None then [BrowserClose] else [])"
  unfolding scenario_unfold [OF assms] fst_conv finally_trace
  by (metis append_assoc)

lemma scenario_flow_error_callback:
  assumes "acquire eng w = (pre :: 'c action list, None)"
    and "snd (try_body w (ctx :: 'c) True) = Some e"
  shows "Callback (Some e) ctx \<in> set (fst (scenario eng w ctx True))"
  unfolding scenario_unfold [OF assms(1)] using assms(2)
  by (simp add: catch_block_def)

lemma scenario_flow_error_callback_result:
  assumes "acquire eng w = (pre :: 'c action list, None)"
    and "snd (try_body w (ctx :: 'c) True) = Some e"
    and "callback_error_throws w = None"
    and "snd (finally_block w :: 'c action list \<times> error option) = None"
  shows "snd (scenario eng w ctx True) = Returned None"
  unfolding scenario_unfold [OF assms(1)] using assms(2,3,4)
  by (simp add: catch_block_def)

lemma scenario_flow_error_rethrown:
  assumes "acquire eng w = (pre :: 'c action list, None)"
    and "snd (try_body w (ctx :: 'c) False) = Some e"
    and "snd (finally_block w :: 'c action list \<times> error option) = None"
  shows "snd (scenario eng w ctx False) = Thrown e"
  unfolding scenario_unfold [OF assms(1)] using assms(2,3)
  by (simp add: catch_block_def)

text \<open>
  The exits that the \<open>try\<close> covers. Take an invocation that got its browser and its
  context (nothing threw before the \<open>try\<close>). Then \<open>context.close()\<close> is called on every
  way out, and when it returns, \<open>browser.close()\<close> is called right after it, as the
  last call of the scenario. If the flow function is reached and throws \<open>e\<close>: with a
  callback, \<open>callback(e, initialContext)\<close> is called, and the scenario returns
  \<open>undefined\<close> when the callback and both closes return; without a callback, the
  scenario throws \<open>e\<close> to its caller when both closes return.
\<close>

theorem scenario_release:
  assumes "snd (acquire eng w :: 'c action list \<times> error option) = None"
  shows "ContextClose \<in> set (fst (scenario eng w (ctx :: 'c) cb))
       \<and> (contextClose_throws w = None \<longrightarrow>
            (\<exists>tr. fst (scenario eng w ctx cb) = tr @ [ContextClose, BrowserClose]))
       \<and> (addInitScript_vitals_throws w = None \<and> addInitScript_stats_throws w = None \<and>
          newPage_throws w = None \<and> flowFunction_throws w = Some e \<longrightarrow>
            (cb \<longrightarrow> Callback (Some e) ctx \<in> set (fst (scenario eng w ctx cb)))
          \<and> (cb \<and> callback_error_throws w = None \<and> contextClose_throws w = None \<and>
              browserClose_throws w = None \<longrightarrow>
               snd (scenario eng w ctx cb) = Returned None)
          \<and> (\<not> cb \<and> contextClose_throws w = None \<and> browserClose_throws w = None \<longrightarrow>
               snd (scenario eng w ctx cb) = Thrown e))"
proof -
  obtain pre where acq: "acquire eng w = (pre :: 'c action list, None)"
    using assms by (cases "acquire eng w :: 'c action list \<times> error option") simp
  obtain tr where tr: "fst (scenario eng w ctx cb)
      = tr @ ContextClose # (if contextClose_throws w = None then [BrowserClose] else [])"
    using scenario_closes [OF acq] by blast
  have a: "ContextClose \<in> set (fst (scenario eng w ctx cb))"
    by (simp add: tr)
  have b: "\<exists>t. fst (scenario eng w ctx cb) = t @ [ContextClose, BrowserClose]"
    if "contextClose_throws w = None"
    using that tr by simp
  have c: "Callback (Some e) ctx \<in> set (fst (scenario eng w ctx cb))"
    if "addInitScript_vitals_throws w = None" "addInitScript_stats_throws w = None"
      "newPage_throws w = None" "flowFunction_throws w = Some e" cb
  proof -
    have "cb = True" using that(5) by simp
    then show ?thesis
      using scenario_flow_error_callback [OF acq try_body_flow_throws [OF that(1-4)]]
      by simp
  qed
  have r: "snd (scenario eng w ctx cb) = Returned None"
    if "addInitScript_vitals_throws w = None" "addInitScript_stats_throws w = None"
      "newPage_throws w = None" "flowFunction_throws w = Some e" cb
      "callback_error_throws w = None"
      "contextClose_throws w = None" "browserClose_throws w = None"
  proof -
    have "cb = True" using that(5) by simp
    then show ?thesis
      using scenario_flow_error_callback_result [OF acq try_body_flow_throws [OF that(1-4)]
          that(6) finally_result [OF that(7,8)]]
      by simp
  qed
  have d: "snd (scenario eng w ctx cb) = Thrown e"
    if "addInitScript_vitals_throws w = None" "addInitScript_stats_throws w = None"
      "newPage_throws w = None" "flowFunction_throws w = Some e" "\<not> cb"
      "contextClose_throws w = None" "browserClose_throws w = None"
  proof -
    have "cb = False" using that(5) by simp
    then show ?thesis
      using scenario_flow_error_rethrown [OF acq try_body_flow_throws [OF that(1-4)]
          finally_result [OF that(6,7)]]
      by simp
  qed
  show ?thesis
    using a b c r d by blast
qed

theorem scenario_release_witness:
  "snd (acquire example_engine failing_flow_world :: jsval action list \<times> error option) = None
   \<and> ContextClose \<in> set (fst (scenario example_engine failing_flow_world user_context True))
   \<and> (\<exists>tr. fst (scenario example_engine failing_flow_world user_context True)
              = tr @ [ContextClose, BrowserClose])
   \<and> Callback (Some (HostError ''flow failed'')) user_context
       \<in> set (fst (scenario example_engine failing_flow_world user_context True))
   \<and> snd (scenario example_engine failing_flow_world user_context True) = Returned None
   \<and> snd (scenario example_engine failing_flow_world user_context False)
       = Thrown (HostError ''flow failed'')"
proof -
  have acq: "snd (acquire example_engine failing_flow_world :: jsval action list \<times> error option)
               = None"
    by (simp add: acquire_def failing_flow_world_def quiet_world_def)
  have w: "contextClose_throws failing_flow_world = None"
    "browserClose_throws failing_flow_world = None"
    "callback_error_throws failing_flow_world = None"
    "addInitScript_vitals_throws failing_flow_world = None"
    "addInitScript_stats_throws failing_flow_world = None"
    "newPage_throws failing_flow_world = None"
    "flowFunction_throws failing_flow_world = Some (HostError ''flow failed'')"
    by (simp_all add: failing_flow_world_def quiet_world_def)
  show ?thesis
    using acq w scenario_release [OF acq, of user_context True "HostError ''flow failed''"]
      scenario_release [OF acq, of user_context False "HostError ''flow failed''"]
    by simp
qed

text \<open>
  A resource error inside the \<open>try\<close>: when \<open>context.newPage\<close> throws, the error is
  logged and handed to the callback, and the context and the browser are closed.
\<close>

lemma scenario_newPage_failure_is_handled:
  "scenario example_engine no_page_world user_context True
     = ([EmitStarted, Launch, NewContext,
         SetDefaultNavigationTimeout (JNum 30000), SetDefaultTimeout (JNum 30000),
         AddInitScript ''WEB_VITALS_SCRIPT'', AddInitScript ''statsToConsole'', NewPage,
         LogError (HostError ''no page''), Callback (Some (HostError ''no page'')) user_context,
         ContextClose, BrowserClose],
        Returned None)"
  by (simp add: scenario_def acquire_def try_body_def catch_block_def finally_block_def
      no_page_world_def quiet_world_def example_engine_def)

text \<open>
  C5. The release is to happen on every exit path, resource errors included. It does
  not when \<open>browser.newContext\<close> throws: the browser is launched (line 75), the
  context is created outside the \<open>try\<close> (line 77), so the scenario leaves with the
  error after the three calls \<open>emit("started")\<close>, \<open>launch\<close>, \<open>newContext\<close>. The launched
  browser is not closed, nothing is logged, and the supplied callback is not called.
\<close>

theorem scenario_newContext_failure_leaks_browser:
  "scenario example_engine no_context_world user_context True
     = ([EmitStarted, Launch, NewContext], Thrown (HostError ''no context''))"
  by (simp add: scenario_def acquire_def no_context_world_def quiet_world_def)

text \<open>The same for every such invocation, with or without a callback.\<close>

lemma scenario_newContext_failure:
  assumes "launch_throws w = None" and "newContext_throws w = Some e"
  shows "scenario eng w ctx cb = ([EmitStarted, Launch, NewContext], Thrown e)"
  using assms by (simp add: scenario_def acquire_def)

text \<open>When \<open>context.close()\<close> throws, \<open>browser.close()\<close> is not called.\<close>

lemma scenario_close_failure_skips_browser_close:
  "BrowserClose \<notin> set (fst (scenario example_engine stuck_context_world user_context True))"
  by (simp add: scenario_def acquire_def try_body_def finally_block_def
      stuck_context_world_def quiet_world_def)

section \<open>Timeouts\<close>





















end
